theory Spec2Isabelle
  imports Complex_Main
begin

section \<open>Python values\<close>

text \<open>
  The two applications (\<^verbatim>\<open>app.py\<close>, \<^verbatim>\<open>app2.py\<close>) work on values decoded from JSON and on
  a few Python literals used as defaults. A value is one of Python's \<^verbatim>\<open>None\<close>, \<^verbatim>\<open>bool\<close>,
  \<^verbatim>\<open>int\<close> (unbounded), \<^verbatim>\<open>float\<close>, \<^verbatim>\<open>str\<close>, \<^verbatim>\<open>list\<close> and \<^verbatim>\<open>dict\<close> (string keys,
  insertion order, as \<^verbatim>\<open>json.loads\<close> builds it).

  A finite float is modelled by the rational number it denotes; the rounding of IEEE 754
  doubles is not modelled, the two infinities and NaN are. Text is a list of 8-bit
  characters read as code points below 256.
\<close>

datatype pyfloat = Finite rat | PosInf | NegInf | NaN

datatype pyval =
    PNone
  | PBool bool
  | PInt int
  | PFloat pyfloat
  | PStr string
  | PList "pyval list"
  | PDict "(string \<times> pyval) list"

datatype exc = ValueError | TypeError | KeyError | IndexError | OverflowError | AttributeError

text \<open>\<^verbatim>\<open>isinstance(v, (int, float))\<close>: \<^verbatim>\<open>bool\<close> is a subclass of \<^verbatim>\<open>int\<close>.\<close>

fun isinstance_number :: "pyval \<Rightarrow> bool" where
  "isinstance_number (PInt n) = True"
| "isinstance_number (PFloat f) = True"
| "isinstance_number (PBool b) = True"
| "isinstance_number v = False"

text \<open>\<^verbatim>\<open>v > 0\<close> for a number \<open>v\<close> (every comparison with NaN is false).\<close>

fun gt_zero :: "pyval \<Rightarrow> bool" where
  "gt_zero (PInt n) = (0 < n)"
| "gt_zero (PBool b) = b"
| "gt_zero (PFloat (Finite r)) = (0 < r)"
| "gt_zero (PFloat PosInf) = True"
| "gt_zero v = False"

section \<open>Strings\<close>

text \<open>\<^verbatim>\<open>str.isspace\<close> on the code points below 256.\<close>

definition py_isspace :: "char \<Rightarrow> bool" where
  "py_isspace c = ((of_char c :: nat) \<in> set [9, 10, 11, 12, 13, 28, 29, 30, 31, 32, 133, 160])"

definition py_lstrip :: "string \<Rightarrow> string" where
  "py_lstrip s = dropWhile py_isspace s"

definition py_rstrip :: "string \<Rightarrow> string" where
  "py_rstrip s = rev (dropWhile py_isspace (rev s))"

definition py_strip :: "string \<Rightarrow> string" where
  "py_strip s = py_rstrip (py_lstrip s)"

definition startswith :: "string \<Rightarrow> string \<Rightarrow> bool" where
  "startswith s p = (take (length p) s = p)"

definition endswith :: "string \<Rightarrow> string \<Rightarrow> bool" where
  "endswith s p = (length p \<le> length s \<and> drop (length s - length p) s = p)"

text \<open>\<^verbatim>\<open>s.find(c)\<close> and \<^verbatim>\<open>s.rfind(c)\<close> for a one-character \<open>c\<close>: an index, or \<open>-1\<close>.\<close>

fun py_find :: "string \<Rightarrow> char \<Rightarrow> int" where
  "py_find [] c = - 1"
| "py_find (x # xs) c =
     (if x = c then 0 else (let r = py_find xs c in if r = - 1 then - 1 else r + 1))"

definition py_rfind :: "string \<Rightarrow> char \<Rightarrow> int" where
  "py_rfind s c = (let r = py_find (rev s) c in if r = - 1 then - 1 else int (length s) - 1 - r)"

text \<open>\<^verbatim>\<open>s[a:b]\<close>, with Python's reading of negative and oversized bounds.\<close>

definition slice_bound :: "nat \<Rightarrow> int \<Rightarrow> nat" where
  "slice_bound n i = (if i < 0 then nat (int n + i) else min (nat i) n)"

definition py_slice :: "string \<Rightarrow> int \<Rightarrow> int \<Rightarrow> string" where
  "py_slice s a b =
     (let lo = slice_bound (length s) a; hi = slice_bound (length s) b
      in take (hi - lo) (drop lo s))"

section \<open>The conversions \<^verbatim>\<open>int(x)\<close> and \<^verbatim>\<open>float(x)\<close>\<close>

definition is_digit :: "char \<Rightarrow> bool" where
  "is_digit c = (48 \<le> (of_char c :: nat) \<and> (of_char c :: nat) \<le> 57)"

definition digit_val :: "char \<Rightarrow> nat" where
  "digit_val c = of_char c - 48"

definition digits_nat :: "string \<Rightarrow> nat" where
  "digits_nat ds = foldl (\<lambda>acc c. acc * 10 + digit_val c) 0 ds"

text \<open>
  Both conversions accept one underscore between two digits. The function removes such
  underscores and fails on any other (\<open>prev\<close> is the character before).
\<close>

fun drop_underscores :: "char option \<Rightarrow> string \<Rightarrow> string option" where
  "drop_underscores prev [] = Some []"
| "drop_underscores prev (c # cs) =
     (if c = CHR ''_'' then
        (case (prev, cs) of
           (Some p, d # ds) \<Rightarrow>
             if is_digit p \<and> is_digit d then drop_underscores (Some c) cs else None
         | _ \<Rightarrow> None)
      else map_option ((#) c) (drop_underscores (Some c) cs))"

text \<open>
  The whitespace that \<^verbatim>\<open>int\<close> and \<^verbatim>\<open>float\<close> skip around a literal: unlike \<^verbatim>\<open>str.strip\<close>, they
  do not skip the separators \<open>0x1C\<close> to \<open>0x1F\<close>.
\<close>

definition conv_isspace :: "char \<Rightarrow> bool" where
  "conv_isspace c = ((of_char c :: nat) \<in> set [9, 10, 11, 12, 13, 32, 133, 160])"

definition conv_strip :: "string \<Rightarrow> string" where
  "conv_strip s = rev (dropWhile conv_isspace (rev (dropWhile conv_isspace s)))"

definition split_sign :: "string \<Rightarrow> bool \<times> string" where
  "split_sign s =
     (case s of
        [] \<Rightarrow> (False, [])
      | c # r \<Rightarrow> if c = CHR ''-'' then (True, r) else if c = CHR ''+'' then (False, r) else (False, s))"

text \<open>
  \<^verbatim>\<open>int(s)\<close> for a string, base 10: \<open>None\<close> stands for \<^verbatim>\<open>ValueError\<close>. The interpreter's
  limit on the number of digits of an integer literal is not modelled.
\<close>

definition int_of_str :: "string \<Rightarrow> int option" where
  "int_of_str s =
     (let (neg, r) = split_sign (conv_strip s) in
      case drop_underscores None r of
        None \<Rightarrow> None
      | Some ds \<Rightarrow>
          if ds \<noteq> [] \<and> list_all is_digit ds
          then Some (if neg then - int (digits_nat ds) else int (digits_nat ds))
          else None)"

definition scale10 :: "rat \<Rightarrow> int \<Rightarrow> rat" where
  "scale10 x k = (if 0 \<le> k then x * 10 ^ nat k else x / 10 ^ nat (- k))"

text \<open>A decimal literal: digits, an optional fraction, an optional exponent.\<close>

definition decimal_of_str :: "string \<Rightarrow> rat option" where
  "decimal_of_str b =
     (let ip = takeWhile is_digit b;
          r1 = dropWhile is_digit b;
          (fp, r2) = (case r1 of
                        [] \<Rightarrow> ([], [])
                      | c # r \<Rightarrow> if c = CHR ''.'' then (takeWhile is_digit r, dropWhile is_digit r)
                                 else ([], r1));
          m = rat_of_nat (digits_nat (ip @ fp))
      in if ip = [] \<and> fp = [] then None
         else (case r2 of
                 [] \<Rightarrow> Some (scale10 m (- int (length fp)))
               | e # r3 \<Rightarrow>
                   if e = CHR ''e'' \<or> e = CHR ''E'' then
                     (let (eneg, ed) = split_sign r3 in
                      if ed \<noteq> [] \<and> list_all is_digit ed
                      then Some (scale10 m ((if eneg then - int (digits_nat ed) else int (digits_nat ed))
                                             - int (length fp)))
                      else None)
                   else None))"

definition lower :: "char \<Rightarrow> char" where
  "lower c = (if 65 \<le> (of_char c :: nat) \<and> (of_char c :: nat) \<le> 90
              then char_of ((of_char c :: nat) + 32) else c)"

text \<open>\<^verbatim>\<open>float(s)\<close> for a string: \<open>None\<close> stands for \<^verbatim>\<open>ValueError\<close>.\<close>

definition float_of_str :: "string \<Rightarrow> pyfloat option" where
  "float_of_str s =
     (let (neg, r) = split_sign (conv_strip s) in
      case drop_underscores None r of
        None \<Rightarrow> None
      | Some b \<Rightarrow>
          if map lower b = ''inf'' \<or> map lower b = ''infinity''
          then Some (if neg then NegInf else PosInf)
          else if map lower b = ''nan'' then Some NaN
          else (case decimal_of_str b of
                  None \<Rightarrow> None
                | Some x \<Rightarrow> Some (Finite (if neg then - x else x))))"

text \<open>Truncation towards zero, as \<^verbatim>\<open>int(x)\<close> does on a float.\<close>

definition trunc :: "rat \<Rightarrow> int" where
  "trunc x = (if 0 \<le> x then \<lfloor>x\<rfloor> else \<lceil>x\<rceil>)"

fun py_int :: "pyval \<Rightarrow> exc + int" where
  "py_int (PInt n) = Inr n"
| "py_int (PBool b) = Inr (if b then 1 else 0)"
| "py_int (PFloat (Finite x)) = Inr (trunc x)"
| "py_int (PFloat PosInf) = Inl OverflowError"
| "py_int (PFloat NegInf) = Inl OverflowError"
| "py_int (PFloat NaN) = Inl ValueError"
| "py_int (PStr s) = (case int_of_str s of None \<Rightarrow> Inl ValueError | Some n \<Rightarrow> Inr n)"
| "py_int v = Inl TypeError"

fun py_float :: "pyval \<Rightarrow> exc + pyfloat" where
  "py_float (PInt n) = Inr (Finite (rat_of_int n))"
| "py_float (PBool b) = Inr (Finite (if b then 1 else 0))"
| "py_float (PFloat f) = Inr f"
| "py_float (PStr s) = (case float_of_str s of None \<Rightarrow> Inl ValueError | Some f \<Rightarrow> Inr f)"
| "py_float v = Inl TypeError"

section \<open>The accessor \<^verbatim>\<open>safe_get\<close> (app2.py)\<close>

datatype key = KStr string | KInt int

text \<open>The argument \<^verbatim>\<open>keys\<close>: one key, or a list of them.\<close>

datatype keys_arg = Key key | Keys "key list"

text \<open>\<^verbatim>\<open>d.get(k)\<close>: the dictionaries here have string keys only, so an integer finds nothing.\<close>

fun dict_get :: "(string \<times> pyval) list \<Rightarrow> key \<Rightarrow> pyval" where
  "dict_get d (KStr k) = (case map_of d k of None \<Rightarrow> PNone | Some v \<Rightarrow> v)"
| "dict_get d (KInt i) = PNone"

text \<open>
  The loop over the keys. \<open>None\<close> is one of the loop's three \<^verbatim>\<open>return default\<close>; \<open>Some temp\<close>
  is the value bound to \<^verbatim>\<open>temp\<close> when the loop ends.
\<close>

fun traverse :: "pyval \<Rightarrow> key list \<Rightarrow> pyval option" where
  "traverse temp [] = Some temp"
| "traverse PNone (k # ks) = None"
| "traverse (PList xs) (KInt i # ks) =
     (if 0 \<le> i \<and> i < int (length xs) then traverse (xs ! nat i) ks else None)"
| "traverse (PDict d) (k # ks) = traverse (dict_get d k) ks"
| "traverse v (k # ks) = None"

definition caught :: "exc list \<Rightarrow> exc \<Rightarrow> bool" where
  "caught handled e = (e \<in> set handled)"

text \<open>The statements after the loop, inside the outer \<^verbatim>\<open>try\<close>.\<close>

definition coerce :: "pyval \<Rightarrow> exc + pyval" where
  "coerce temp =
     (if isinstance_number temp then Inr temp
      else (case py_int temp of
              Inr n \<Rightarrow> Inr (PInt n)
            | Inl e \<Rightarrow>
                if caught [ValueError, TypeError] e then
                  (case py_float temp of
                     Inr f \<Rightarrow> Inr (PFloat f)
                   | Inl e' \<Rightarrow> if caught [ValueError, TypeError] e' then Inr temp else Inl e')
                else Inl e))"

definition safe_get :: "pyval \<Rightarrow> keys_arg \<Rightarrow> pyval \<Rightarrow> exc + pyval" where
  "safe_get data keys dflt =
     (let ks = (case keys of Keys l \<Rightarrow> l | Key k \<Rightarrow> [k]);
          body = (case traverse data ks of None \<Rightarrow> Inr dflt | Some temp \<Rightarrow> coerce temp)
      in case body of
           Inl e \<Rightarrow> if caught [KeyError, TypeError, IndexError] e then Inr dflt else Inl e
         | Inr v \<Rightarrow> Inr v)"

section \<open>Decoding JSON: \<^verbatim>\<open>json.loads\<close>\<close>

text \<open>
  The standard library's decoder, in its default (strict) mode: surrounding whitespace is
  skipped, exactly one value is read, and anything else is a \<^verbatim>\<open>JSONDecodeError\<close>
  (\<open>None\<close> below). The decoder is modelled in two passes over the text, a lexer and a
  stack machine over the tokens: the result is the value the library's recursive descent
  builds. As the library does, the lexer accepts the literals \<^verbatim>\<open>NaN\<close>, \<^verbatim>\<open>Infinity\<close> and
  \<^verbatim>\<open>-Infinity\<close>. An escape \<^verbatim>\<open>\uXXXX\<close> of a code point above 255 has no character in this
  model's alphabet and is refused; the limits of the interpreter (recursion depth, the
  length of an integer literal) are not modelled.
\<close>

datatype token = TLBrace | TRBrace | TLBracket | TRBracket | TColon | TComma | TValue pyval

definition json_ws :: "char \<Rightarrow> bool" where
  "json_ws c = (c = CHR '' '' \<or> c = CHR 0x09 \<or> c = CHR 0x0A \<or> c = CHR 0x0D)"

definition hex_val :: "char \<Rightarrow> nat option" where
  "hex_val c =
     (let n = (of_char c :: nat) in
      if 48 \<le> n \<and> n \<le> 57 then Some (n - 48)
      else if 97 \<le> n \<and> n \<le> 102 then Some (n - 87)
      else if 65 \<le> n \<and> n \<le> 70 then Some (n - 55)
      else None)"

definition hex4 :: "string \<Rightarrow> nat option" where
  "hex4 s =
     (if length s = 4 \<and> list_all (\<lambda>c. hex_val c \<noteq> None) s
      then Some (foldl (\<lambda>acc c. acc * 16 + the (hex_val c)) 0 s)
      else None)"

definition unescape :: "char \<Rightarrow> char option" where
  "unescape e =
     (if e = CHR 0x22 then Some (CHR 0x22)
      else if e = CHR 0x5C then Some (CHR 0x5C)
      else if e = CHR ''/'' then Some (CHR ''/'')
      else if e = CHR ''b'' then Some (CHR 0x08)
      else if e = CHR ''f'' then Some (CHR 0x0C)
      else if e = CHR ''n'' then Some (CHR 0x0A)
      else if e = CHR ''r'' then Some (CHR 0x0D)
      else if e = CHR ''t'' then Some (CHR 0x09)
      else None)"

definition cons_fst :: "'a \<Rightarrow> ('a list \<times> 'b) option \<Rightarrow> ('a list \<times> 'b) option" where
  "cons_fst x r = map_option (\<lambda>(t, z). (x # t, z)) r"

text \<open>
  A string literal, read after its opening quote: the decoded text and what follows the
  closing quote. A control character inside the literal is an error.
\<close>

fun lex_string :: "string \<Rightarrow> (string \<times> string) option" where
  "lex_string [] = None"
| "lex_string (c # cs) =
     (if c = CHR 0x22 then Some ([], cs)
      else if c = CHR 0x5C then
        (case cs of
           [] \<Rightarrow> None
         | e # r \<Rightarrow>
             if e = CHR ''u'' then
               (case hex4 (take 4 r) of
                  None \<Rightarrow> None
                | Some n \<Rightarrow> if n < 256 then cons_fst (char_of n) (lex_string (drop 4 r)) else None)
             else (case unescape e of
                     None \<Rightarrow> None
                   | Some x \<Rightarrow> cons_fst x (lex_string r)))
      else if (of_char c :: nat) < 32 then None
      else cons_fst c (lex_string cs))"

text \<open>
  A number, by the library's pattern
  \<^verbatim>\<open>(-?(?:0|[1-9][0-9]*))(\.[0-9]+)?([eE][-+]?[0-9]+)?\<close>: the longest match at the start of
  the text. It is an \<^verbatim>\<open>int\<close> when it has neither fraction nor exponent, else a \<^verbatim>\<open>float\<close>.
\<close>

definition lex_int_part :: "string \<Rightarrow> string" where
  "lex_int_part s =
     (case s of
        [] \<Rightarrow> []
      | d # r \<Rightarrow> if \<not> is_digit d then [] else if d = CHR ''0'' then [d] else d # takeWhile is_digit r)"

definition lex_frac_part :: "string \<Rightarrow> string" where
  "lex_frac_part s =
     (case s of
        [] \<Rightarrow> []
      | c # r \<Rightarrow> if c = CHR ''.'' \<and> takeWhile is_digit r \<noteq> [] then takeWhile is_digit r else [])"

text \<open>The exponent at the start of the text: its length in characters and its value.\<close>

definition lex_exp_part :: "string \<Rightarrow> (nat \<times> int) option" where
  "lex_exp_part s =
     (case s of
        [] \<Rightarrow> None
      | e # r \<Rightarrow>
          if e = CHR ''e'' \<or> e = CHR ''E'' then
            (let (eneg, z) = split_sign r; ds = takeWhile is_digit z
             in if ds = [] then None
                else Some (1 + (length r - length z) + length ds,
                           if eneg then - int (digits_nat ds) else int (digits_nat ds)))
          else None)"

definition lex_number :: "string \<Rightarrow> (pyval \<times> nat) option" where
  "lex_number s =
     (let (neg, r) = (case s of [] \<Rightarrow> (False, []) | c # t \<Rightarrow> if c = CHR ''-'' then (True, t) else (False, s));
          ip = lex_int_part r;
          fp = lex_frac_part (drop (length ip) r);
          r2 = drop (length ip + (if fp = [] then 0 else 1 + length fp)) r;
          ex = lex_exp_part r2;
          n = (length s - length r) + length ip + (if fp = [] then 0 else 1 + length fp)
                + (case ex of None \<Rightarrow> 0 | Some (k, _) \<Rightarrow> k)
      in if ip = [] then None
         else if fp = [] \<and> ex = None
           then Some (PInt (if neg then - int (digits_nat ip) else int (digits_nat ip)), n)
         else
           (let m = scale10 (rat_of_nat (digits_nat (ip @ fp)))
                      ((case ex of None \<Rightarrow> 0 | Some (_, e) \<Rightarrow> e) - int (length fp))
            in Some (PFloat (Finite (if neg then - m else m)), n)))"

definition cons_tok :: "token \<Rightarrow> token list option \<Rightarrow> token list option" where
  "cons_tok t r = map_option ((#) t) r"

lemma lex_string_shorter: "lex_string cs = Some (t, r) \<Longrightarrow> length r < Suc (length cs)"
proof (induction cs arbitrary: t r rule: lex_string.induct)
  case 1
  then show ?case by simp
next
  case (2 c cs)
  then show ?case
    by (fastforce simp: cons_fst_def split: if_splits list.splits option.splits)
qed

lemma lex_number_positive: "lex_number s = Some (v, n) \<Longrightarrow> 0 < n"
  by (auto simp: lex_number_def Let_def lex_int_part_def split: if_splits list.splits prod.splits)

function tokenize :: "string \<Rightarrow> token list option" where
  "tokenize [] = Some []"
| "tokenize (c # cs) =
     (if json_ws c then tokenize cs
      else if c = CHR ''{'' then cons_tok TLBrace (tokenize cs)
      else if c = CHR ''}'' then cons_tok TRBrace (tokenize cs)
      else if c = CHR ''['' then cons_tok TLBracket (tokenize cs)
      else if c = CHR '']'' then cons_tok TRBracket (tokenize cs)
      else if c = CHR '':'' then cons_tok TColon (tokenize cs)
      else if c = CHR '','' then cons_tok TComma (tokenize cs)
      else if c = CHR 0x22 then
        (case lex_string cs of
           None \<Rightarrow> None
         | Some (t, r) \<Rightarrow> cons_tok (TValue (PStr t)) (tokenize r))
      else if startswith (c # cs) ''null'' then cons_tok (TValue PNone) (tokenize (drop 3 cs))
      else if startswith (c # cs) ''true'' then cons_tok (TValue (PBool True)) (tokenize (drop 3 cs))
      else if startswith (c # cs) ''false'' then cons_tok (TValue (PBool False)) (tokenize (drop 4 cs))
      else
        (case lex_number (c # cs) of
           Some (v, n) \<Rightarrow> cons_tok (TValue v) (tokenize (drop n (c # cs)))
         | None \<Rightarrow>
             if startswith (c # cs) ''NaN'' then cons_tok (TValue (PFloat NaN)) (tokenize (drop 2 cs))
             else if startswith (c # cs) ''Infinity''
               then cons_tok (TValue (PFloat PosInf)) (tokenize (drop 7 cs))
             else if startswith (c # cs) ''-Infinity''
               then cons_tok (TValue (PFloat NegInf)) (tokenize (drop 8 cs))
             else None))"
  by pat_completeness auto
termination
  by (relation "measure length") (auto dest: lex_string_shorter lex_number_positive)

text \<open>
  Assignment \<^verbatim>\<open>d[k] = v\<close>: a key already present keeps its place and takes the new
  value (for a repeated key in a JSON object, the last value wins).
\<close>

fun dict_set :: "(string \<times> pyval) list \<Rightarrow> string \<Rightarrow> pyval \<Rightarrow> (string \<times> pyval) list" where
  "dict_set [] k v = [(k, v)]"
| "dict_set (p # ps) k v = (if fst p = k then (k, v) # ps else p # dict_set ps k v)"

text \<open>
  The containers under construction: an array with its elements so far (last first), an
  object with its members so far and the key that waits for its value.
\<close>

datatype frame = FArr "pyval list" | FObj "(string \<times> pyval) list" "string option"

text \<open>What the decoder can read next.\<close>

datatype mode =
    MValue        \<comment> \<open>a value\<close>
  | MValueOrEnd   \<comment> \<open>after \<^verbatim>\<open>[\<close>: a value or \<^verbatim>\<open>]\<close>\<close>
  | MKeyOrEnd     \<comment> \<open>after \<^verbatim>\<open>{\<close>: a key or \<^verbatim>\<open>}\<close>\<close>
  | MKey          \<comment> \<open>after a comma in an object: a key\<close>
  | MColon        \<comment> \<open>after a key: the colon\<close>
  | MCommaOrEnd   \<comment> \<open>after a value in a container: a comma or the closing bracket\<close>

datatype pstate = Expect mode "frame list" | Done pyval

text \<open>A value is complete: it is the result, or it goes into the innermost container.\<close>

fun deliver :: "pyval \<Rightarrow> frame list \<Rightarrow> pstate option" where
  "deliver v [] = Some (Done v)"
| "deliver v (FArr xs # st) = Some (Expect MCommaOrEnd (FArr (v # xs) # st))"
| "deliver v (FObj ps (Some k) # st) = Some (Expect MCommaOrEnd (FObj (dict_set ps k v) None # st))"
| "deliver v (FObj ps None # st) = None"

fun begin_value :: "frame list \<Rightarrow> token \<Rightarrow> pstate option" where
  "begin_value st (TValue v) = deliver v st"
| "begin_value st TLBracket = Some (Expect MValueOrEnd (FArr [] # st))"
| "begin_value st TLBrace = Some (Expect MKeyOrEnd (FObj [] None # st))"
| "begin_value st t = None"

fun begin_key :: "frame list \<Rightarrow> token \<Rightarrow> pstate option" where
  "begin_key (FObj ps None # st) (TValue (PStr k)) = Some (Expect MColon (FObj ps (Some k) # st))"
| "begin_key st t = None"

fun close_frame :: "frame list \<Rightarrow> token \<Rightarrow> pstate option" where
  "close_frame (FArr xs # st) TRBracket = deliver (PList (rev xs)) st"
| "close_frame (FObj ps None # st) TRBrace = deliver (PDict ps) st"
| "close_frame st t = None"

fun step :: "mode \<Rightarrow> frame list \<Rightarrow> token \<Rightarrow> pstate option" where
  "step MValue st t = begin_value st t"
| "step MValueOrEnd st t = (if t = TRBracket then close_frame st t else begin_value st t)"
| "step MKeyOrEnd st t = (if t = TRBrace then close_frame st t else begin_key st t)"
| "step MKey st t = begin_key st t"
| "step MColon st t = (if t = TColon then Some (Expect MValue st) else None)"
| "step MCommaOrEnd st t =
     (if t = TComma then
        (case st of
           FArr xs # _ \<Rightarrow> Some (Expect MValue st)
         | FObj ps k # _ \<Rightarrow> Some (Expect MKey st)
         | [] \<Rightarrow> None)
      else close_frame st t)"

fun run :: "pstate \<Rightarrow> token list \<Rightarrow> pyval option" where
  "run (Done v) [] = Some v"
| "run (Done v) (t # ts) = None"
| "run (Expect m st) [] = None"
| "run (Expect m st) (t # ts) = (case step m st t of None \<Rightarrow> None | Some s \<Rightarrow> run s ts)"

definition json_loads :: "string \<Rightarrow> pyval option" where
  "json_loads s = (case tokenize s of None \<Rightarrow> None | Some ts \<Rightarrow> run (Expect MValue []) ts)"

section \<open>Normalising the model's reply: \<^verbatim>\<open>analyze_image_with_ollama\<close>\<close>

text \<open>
  Both applications return a triple (parsed JSON, error message, raw output). The error
  messages are modelled by what they report, not by their wording:
  \<^item> \<open>EmptyResponse\<close>: "Received an empty response from the model.";
  \<^item> \<open>MalformedJson\<close>: the reply could not be parsed as JSON;
  \<^item> \<open>UnexpectedError\<close>: the handler of the last resort, \<^verbatim>\<open>except Exception\<close>;
  \<^item> \<open>InternalError\<close>: "Analysis triggered but no image data found in session state."
\<close>

datatype message = EmptyResponse | MalformedJson | UnexpectedError | InternalError

type_synonym outcome = "pyval option \<times> message option \<times> string option"

text \<open>\<^verbatim>\<open>response_data.get('response', '').strip()\<close>, on the decoded body of the HTTP response.\<close>

definition response_text :: "pyval \<Rightarrow> exc + string" where
  "response_text response_data =
     (case response_data of
        PDict d \<Rightarrow>
          (case map_of d ''response'' of
             None \<Rightarrow> Inr (py_strip [])
           | Some (PStr s) \<Rightarrow> Inr (py_strip s)
           | Some _ \<Rightarrow> Inl AttributeError)
      | _ \<Rightarrow> Inl AttributeError)"

text \<open>
  app2.py, lines 172 to 203, on the stripped text \<^verbatim>\<open>ollama_output_str\<close>. The variable is
  assigned again while the fence is removed, so the third component is the cleaned text.
\<close>

definition potential_json_str :: "string \<Rightarrow> string" where
  "potential_json_str s3 =
     (let json_start = py_find s3 (CHR ''{'');
          json_end = py_rfind s3 (CHR ''}'')
      in if json_start \<noteq> - 1 \<and> json_end \<noteq> - 1 \<and> json_start < json_end
         then py_slice s3 json_start (json_end + 1)
         else s3)"

definition remove_fence :: "string \<Rightarrow> string" where
  \<open>remove_fence s0 =
     (let s1 = (if startswith s0 ''```json'' then drop 7 s0 else s0);
          s2 = (if endswith s1 ''```'' then take (length s1 - 3) s1 else s1)
      in py_strip s2)\<close>

definition parse_reply2 :: "string \<Rightarrow> outcome" where
  "parse_reply2 ollama_output_str =
     (if ollama_output_str = [] then (None, Some EmptyResponse, Some ollama_output_str)
      else
        (let s3 = remove_fence ollama_output_str in
         case json_loads (potential_json_str s3) of
           Some parsed_json \<Rightarrow> (Some parsed_json, None, Some s3)
         | None \<Rightarrow> (None, Some MalformedJson, Some s3)))"

definition analyze_image_with_ollama2 :: "pyval \<Rightarrow> outcome" where
  "analyze_image_with_ollama2 response_data =
     (case response_text response_data of
        Inl e \<Rightarrow> (None, Some UnexpectedError, None)
      | Inr ollama_output_str \<Rightarrow> parse_reply2 ollama_output_str)"

text \<open>app.py, lines 76 to 97: the text is given to \<^verbatim>\<open>json.loads\<close> as it is.\<close>

definition parse_reply1 :: "string \<Rightarrow> outcome" where
  "parse_reply1 ollama_output_str =
     (if ollama_output_str = [] then (None, Some EmptyResponse, None)
      else
        (case json_loads ollama_output_str of
           Some parsed_json \<Rightarrow> (Some parsed_json, None, None)
         | None \<Rightarrow> (None, Some MalformedJson, Some ollama_output_str)))"

definition analyze_image_with_ollama1 :: "pyval \<Rightarrow> outcome" where
  "analyze_image_with_ollama1 response_data =
     (case response_text response_data of
        Inl e \<Rightarrow> (None, Some UnexpectedError, None)
      | Inr ollama_output_str \<Rightarrow> parse_reply1 ollama_output_str)"

section \<open>The macronutrient chart: \<^verbatim>\<open>create_macro_pie_chart\<close>\<close>

definition bind_exc :: "exc + 'a \<Rightarrow> ('a \<Rightarrow> exc + 'b) \<Rightarrow> exc + 'b" where
  "bind_exc m f = (case m of Inl e \<Rightarrow> Inl e | Inr v \<Rightarrow> f v)"

text \<open>
  The figure, by the arguments of \<^verbatim>\<open>go.Pie\<close> that depend on the input; the other
  arguments and the layout are constants.
\<close>

record pie_chart =
  pie_labels :: "string list"
  pie_values :: "pyval list"
  pie_pull :: "rat list"

definition create_macro_pie_chart :: "pyval \<Rightarrow> exc + pie_chart option" where
  "create_macro_pie_chart macros =
     bind_exc (safe_get macros (Key (KStr ''carbohydrates'')) (PInt 0)) (\<lambda>c.
     bind_exc (safe_get macros (Key (KStr ''protein'')) (PInt 0)) (\<lambda>p.
     bind_exc (safe_get macros (Key (KStr ''fat'')) (PInt 0)) (\<lambda>f.
       (let labels = [''Carbohydrates'', ''Protein'', ''Fat''];
            values = [c, p, f];
            numeric_values = map (\<lambda>v. if isinstance_number v then v else PInt 0) values;
            valid_labels = map (\<lambda>i. labels ! i)
                             (filter (\<lambda>i. gt_zero (numeric_values ! i)) [0..<length labels]);
            valid_values = filter gt_zero numeric_values
        in if valid_values = [] then Inr None
           else Inr (Some \<lparr>pie_labels = valid_labels, pie_values = valid_values,
                            pie_pull = map (\<lambda>v. if gt_zero v then 1 / 20 else 0) valid_values\<rparr>)))))"

section \<open>The Nutrients tab: percentages of the daily values\<close>

definition STD_DAILY_CARBS_G :: int where "STD_DAILY_CARBS_G = 275"
definition STD_DAILY_PROTEIN_G :: int where "STD_DAILY_PROTEIN_G = 50"
definition STD_DAILY_FAT_G :: int where "STD_DAILY_FAT_G = 78"

text \<open>\<^verbatim>\<open>carb_val = carb if isinstance(carb, (int, float)) else 0\<close>\<close>

definition macro_val :: "pyval \<Rightarrow> pyval" where
  "macro_val v = (if isinstance_number v then v else PInt 0)"

text \<open>
  A number as a float, and a float times a positive rational. (An \<^verbatim>\<open>int\<close> too large for a
  float, on which a division raises \<^verbatim>\<open>OverflowError\<close>, is outside the model: finite floats
  are exact rationals here.)
\<close>

fun number_float :: "pyval \<Rightarrow> pyfloat" where
  "number_float (PInt n) = Finite (rat_of_int n)"
| "number_float (PBool b) = Finite (if b then 1 else 0)"
| "number_float (PFloat f) = f"
| "number_float v = NaN"

fun scale_float :: "pyfloat \<Rightarrow> rat \<Rightarrow> pyfloat" where
  "scale_float (Finite x) k = Finite (x * k)"
| "scale_float f k = f"

text \<open>\<^verbatim>\<open>(val / std) * 100 if std > 0 else 0\<close>, for a number \<open>val\<close>.\<close>

definition daily_value_pct :: "pyval \<Rightarrow> int \<Rightarrow> pyval" where
  "daily_value_pct val std =
     (if std > 0
      then PFloat (scale_float (scale_float (number_float val) (1 / rat_of_int std)) 100)
      else PInt 0)"

text \<open>\<^verbatim>\<open>min(int(pct), 100)\<close>, the first argument of \<^verbatim>\<open>st.progress\<close>.\<close>

definition progress_value :: "pyval \<Rightarrow> exc + int" where
  "progress_value pct = bind_exc (py_int pct) (\<lambda>n. Inr (min n 100))"

text \<open>
  One progress bar: its value, and the percentage its text shows (formatted with one
  decimal by the source; the formatting is not modelled).
\<close>

record progress_bar =
  bar_value :: int
  bar_text :: pyval

definition macro_bar :: "pyval \<Rightarrow> string \<Rightarrow> int \<Rightarrow> exc + progress_bar" where
  "macro_bar macros k std =
     bind_exc (safe_get macros (Key (KStr k)) (PInt 0)) (\<lambda>m.
       (let pct = daily_value_pct (macro_val m) std
        in bind_exc (progress_value pct) (\<lambda>b. Inr \<lparr>bar_value = b, bar_text = pct\<rparr>)))"

definition daily_value_bars :: "pyval \<Rightarrow> exc + progress_bar list" where
  "daily_value_bars macros =
     bind_exc (macro_bar macros ''carbohydrates'' STD_DAILY_CARBS_G) (\<lambda>c.
     bind_exc (macro_bar macros ''protein'' STD_DAILY_PROTEIN_G) (\<lambda>p.
     bind_exc (macro_bar macros ''fat'' STD_DAILY_FAT_G) (\<lambda>f. Inr [c, p, f])))"

section \<open>The Details tab: potential allergens\<close>

text \<open>
  The calls \<^verbatim>\<open>st.markdown\<close>, \<^verbatim>\<open>st.warning\<close> and \<^verbatim>\<open>st.write\<close> with their text (the warning's
  text without its leading emoji). \<open>MarkdownItems items\<close> is \<^verbatim>\<open>st.markdown\<close> of the lines
  \<^verbatim>\<open>f"- {item}"\<close> joined by newlines; the text \<^verbatim>\<open>str(item)\<close> of an item is not modelled.
\<close>

datatype widget = Markdown string | MarkdownItems "pyval list" | Warning string | Write string

definition allergens_heading :: widget where
  "allergens_heading = Markdown ''**Potential Allergens (Visual/Typical Estimate):**''"

definition allergen_disclaimer :: string where
  "allergen_disclaimer = ''Allergen list is based on visual cues & typical recipes. It's not exhaustive and doesn't account for cross-contamination. Always verify if you have allergies.''"

definition no_allergens_message :: string where
  "no_allergens_message = ''No obvious potential allergens identified visually or data unavailable.''"

text \<open>app2.py, lines 408 to 416.\<close>

definition render_allergens :: "pyval \<Rightarrow> exc + widget list" where
  "render_allergens data =
     bind_exc (safe_get data (Key (KStr ''potential_allergens'')) (PList [])) (\<lambda>allergens.
       Inr (allergens_heading #
            (case allergens of
               PList items \<Rightarrow>
                 if items \<noteq> []
                 then [MarkdownItems items, Warning allergen_disclaimer]
                 else [Write no_allergens_message]
             | PStr s \<Rightarrow> if s \<noteq> [] then [Write s] else [Write no_allergens_message]
             | _ \<Rightarrow> [Write no_allergens_message])))"

section \<open>The session state and the upload\<close>

record session =
  analysis_result :: "pyval option"
  error_message :: "message option"
  raw_output :: "string option"
  uploaded_file_id :: "string option"
  image_bytes :: "string option"

record uploaded_file =
  upload_name :: string
  upload_size :: nat
  upload_value :: string

text \<open>A natural number in decimal, as an f-string writes it.\<close>

fun str_nat :: "nat \<Rightarrow> string" where
  "str_nat n = (if n < 10 then [char_of (48 + n)] else str_nat (n div 10) @ [char_of (48 + n mod 10)])"

declare str_nat.simps [simp del]

text \<open>\<^verbatim>\<open>f"{uploaded_file.name}-{uploaded_file.size}"\<close>\<close>

definition current_file_id :: "uploaded_file \<Rightarrow> string" where
  "current_file_id f = upload_name f @ ''-'' @ str_nat (upload_size f)"

text \<open>
  app2.py, lines 261 to 278: the new state and the flag \<^verbatim>\<open>run_analysis\<close>.
\<close>

definition upload_step :: "session \<Rightarrow> uploaded_file option \<Rightarrow> session \<times> bool" where
  "upload_step st up =
     (case up of
        None \<Rightarrow> (st, False)
      | Some f \<Rightarrow>
          if Some (current_file_id f) \<noteq> uploaded_file_id st
          then (st\<lparr>uploaded_file_id := Some (current_file_id f),
                    image_bytes := Some (upload_value f),
                    analysis_result := None,
                    error_message := None,
                    raw_output := None\<rparr>, True)
          else (st, False))"

text \<open>
  app2.py, lines 283 to 296. \<open>analyze\<close> is the call of \<^verbatim>\<open>analyze_image_with_ollama\<close> on the
  image bytes: the request to the model and the normalisation of its reply.
\<close>

definition analysis_step :: "(string \<Rightarrow> outcome) \<Rightarrow> session \<times> bool \<Rightarrow> session" where
  "analysis_step analyze sr =
     (case sr of (st, run_analysis) \<Rightarrow>
        if run_analysis then
          (case image_bytes st of
             Some b \<Rightarrow>
               if b \<noteq> [] then
                 (case analyze b of (result_data, error_msg, raw_response) \<Rightarrow>
                    st\<lparr>analysis_result := result_data,
                       error_message := error_msg,
                       raw_output := raw_response\<rparr>)
               else st\<lparr>error_message := Some InternalError, analysis_result := None, raw_output := None\<rparr>
           | None \<Rightarrow> st\<lparr>error_message := Some InternalError, analysis_result := None, raw_output := None\<rparr>)
        else st)"

definition script_run :: "(string \<Rightarrow> outcome) \<Rightarrow> session \<Rightarrow> uploaded_file option \<Rightarrow> session" where
  "script_run analyze st up = analysis_step analyze (upload_step st up)"

section \<open>The specification's notions\<close>

text \<open>
  The definitions of this section are not code of the applications: they state, in the
  specification's words, what the code is compared with.
\<close>

text \<open>
  The value at a key path: a string step enters a dictionary that has the key, an integer
  step enters a list at an index in range; the path cannot be followed (\<open>None\<close>) when a step
  is absent, meets the wrong kind of container, or is out of range.
\<close>

fun spec_follow :: "pyval \<Rightarrow> key list \<Rightarrow> pyval option" where
  "spec_follow v [] = Some v"
| "spec_follow (PDict d) (KStr k # ks) =
     (case map_of d k of None \<Rightarrow> None | Some v \<Rightarrow> spec_follow v ks)"
| "spec_follow (PList xs) (KInt i # ks) =
     (if 0 \<le> i \<and> i < int (length xs) then spec_follow (xs ! nat i) ks else None)"
| "spec_follow v (k # ks) = None"

text \<open>A string that reads as a number becomes that number; every other value is unchanged.\<close>

fun spec_coercion :: "pyval \<Rightarrow> pyval" where
  "spec_coercion (PStr s) =
     (case int_of_str s of
        Some n \<Rightarrow> PInt n
      | None \<Rightarrow> (case float_of_str s of Some f \<Rightarrow> PFloat f | None \<Rightarrow> PStr s))"
| "spec_coercion v = v"

fun is_dict :: "pyval option \<Rightarrow> bool" where
  "is_dict (Some (PDict d)) = True"
| "is_dict v = False"



text \<open>
  A macro value counts as a positive number when Python takes it for a number (an \<^verbatim>\<open>int\<close>, a
  \<^verbatim>\<open>float\<close> or, being an \<^verbatim>\<open>int\<close>, a \<^verbatim>\<open>bool\<close>) above zero; it is "zero or non-numeric" when it
  is a zero or no number at all (\<^verbatim>\<open>None\<close>, a string, a list, a dictionary).
\<close>

definition positive_number :: "pyval \<Rightarrow> bool" where
  "positive_number v = (isinstance_number v \<and> gt_zero v)"

fun zero_or_non_numeric :: "pyval \<Rightarrow> bool" where
  "zero_or_non_numeric (PInt n) = (n = 0)"
| "zero_or_non_numeric (PFloat f) = (f = Finite 0)"
| "zero_or_non_numeric (PBool b) = (\<not> b)"
| "zero_or_non_numeric v = True"

text \<open>
  What a new upload leaves in the cache: the outcome of the analysis of its bytes, or the
  internal error when it has no bytes.
\<close>

definition fresh_outcome :: "(string \<Rightarrow> outcome) \<Rightarrow> uploaded_file \<Rightarrow> outcome" where
  "fresh_outcome analyze f =
     (if upload_value f \<noteq> [] then analyze (upload_value f) else (None, Some InternalError, None))"

section \<open>Properties of the accessor\<close>

lemma coerce_total: "\<exists>v. coerce temp = Inr v"
  by (cases temp) (auto simp: coerce_def caught_def split: option.splits)

lemma safe_get_total: "\<exists>v. safe_get data keys dflt = Inr v"
proof (cases "traverse data (case keys of Keys l \<Rightarrow> l | Key k \<Rightarrow> [k])")
  case None
  then show ?thesis by (simp add: safe_get_def)
next
  case (Some temp)
  obtain v where "coerce temp = Inr v" using coerce_total by blast
  with Some show ?thesis by (simp add: safe_get_def)
qed

lemma coerce_spec: "coerce v = Inr (spec_coercion v)"
  by (cases v) (auto simp: coerce_def caught_def split: option.splits)

lemma follow_Some: "spec_follow v ks = Some r \<Longrightarrow> traverse v ks = Some r"
  by (induction v ks rule: spec_follow.induct) (auto split: option.splits if_splits)

lemma traverse_PNone: "ks \<noteq> [] \<Longrightarrow> traverse PNone ks = None"
  by (cases ks) auto

lemma follow_None:
  "spec_follow v ks = None \<Longrightarrow> \<not> is_dict (spec_follow v (butlast ks)) \<Longrightarrow> traverse v ks = None"
proof (induction v ks rule: spec_follow.induct)
  case (1 v)
  then show ?case by simp
next
  case (2 d k ks)
  show ?case
  proof (cases "map_of d k")
    case None
    with 2 show ?thesis by (cases ks) (auto simp: traverse_PNone)
  next
    case (Some a)
    with 2 show ?thesis by (cases ks) (auto split: if_splits)
  qed
next
  case (3 xs i ks)
  then show ?case by (cases ks) (auto split: if_splits)
qed (auto simp: traverse_PNone split: if_splits)

text \<open>
  Claim C2, as the code has it. The accessor returns the default when the path cannot be
  followed, unless the step that fails is the last one and is made on a dictionary (that
  case is the subject of claim C3 below). When the path leads to a value other
  than \<^verbatim>\<open>None\<close>, the result is that value, except that a string which reads as a number is
  replaced by the number: the accessor knows no declared type of a field, and coerces the
  strings of every field.
\<close>

theorem safe_get_contract:
  "(spec_follow data ks = None \<and> \<not> is_dict (spec_follow data (butlast ks))
      \<longrightarrow> safe_get data (Keys ks) dflt = Inr dflt) \<and>
   (spec_follow data ks = Some v \<and> v \<noteq> PNone
      \<longrightarrow> safe_get data (Keys ks) dflt = Inr (spec_coercion v)) \<and>
   safe_get data (Key k) dflt = safe_get data (Keys [k]) dflt"
  by (auto simp: safe_get_def follow_None follow_Some coerce_spec)

theorem safe_get_contract_witness:
  "spec_follow (PDict [(''items'', PList [PStr ''Pasta'', PStr ''2.5''])]) [KStr ''items'', KInt 5] = None \<and>
   \<not> is_dict (spec_follow (PDict [(''items'', PList [PStr ''Pasta'', PStr ''2.5''])])
                  (butlast [KStr ''items'', KInt 5])) \<and>
   safe_get (PDict [(''items'', PList [PStr ''Pasta'', PStr ''2.5''])])
     (Keys [KStr ''items'', KInt 5]) (PStr ''N/A'') = Inr (PStr ''N/A'') \<and>
   spec_follow (PDict [(''items'', PList [PStr ''Pasta'', PStr ''2.5''])]) [KStr ''items'', KInt 1]
     = Some (PStr ''2.5'') \<and>
   safe_get (PDict [(''items'', PList [PStr ''Pasta'', PStr ''2.5''])])
     (Keys [KStr ''items'', KInt 1]) (PStr ''N/A'') = Inr (PFloat (Finite (5 / 2))) \<and>
   spec_follow (PDict [(''items'', PList [PStr ''Pasta'', PStr ''2.5''])]) [KStr ''items'', KInt 0]
     = Some (PStr ''Pasta'') \<and>
   safe_get (PDict [(''items'', PList [PStr ''Pasta'', PStr ''2.5''])])
     (Keys [KStr ''items'', KInt 0]) (PStr ''N/A'') = Inr (PStr ''Pasta'')"
proof -
  let ?d = "PDict [(''items'', PList [PStr ''Pasta'', PStr ''2.5''])]"
  have a: "spec_follow ?d [KStr ''items'', KInt 5] = None"
    and b: "\<not> is_dict (spec_follow ?d (butlast [KStr ''items'', KInt 5]))"
    and c: "spec_follow ?d [KStr ''items'', KInt 1] = Some (PStr ''2.5'')"
    and d: "spec_follow ?d [KStr ''items'', KInt 0] = Some (PStr ''Pasta'')"
    by simp_all
  have e: "spec_coercion (PStr ''2.5'') = PFloat (Finite (5 / 2))"
    and f: "spec_coercion (PStr ''Pasta'') = PStr ''Pasta''"
    by code_simp+
  from a b c d e f
    safe_get_contract [of ?d "[KStr ''items'', KInt 5]" "PStr ''N/A''"]
    safe_get_contract [of ?d "[KStr ''items'', KInt 1]" "PStr ''N/A''" "PStr ''2.5''"]
    safe_get_contract [of ?d "[KStr ''items'', KInt 0]" "PStr ''N/A''" "PStr ''Pasta''"]
  show ?thesis by simp
qed

text \<open>
  The claim as stated fails: the value of the text field \<^verbatim>\<open>food_name\<close> is the string
  \<^verbatim>\<open>"123"\<close>, and the accessor returns the integer 123, not the string.
\<close>

theorem safe_get_coerces_text_field:
  "safe_get (PDict [(''food_name'', PStr ''123'')]) (Key (KStr ''food_name'')) (PStr ''N/A'')
     = Inr (PInt 123)"
  by code_simp

text \<open>
  Claim C3. The accessor is meant to return the looked-up value or the default it was
  given, whatever the record. It never raises (\<open>safe_get_total\<close>), but for a dictionary
  that lacks the queried key it returns \<^verbatim>\<open>None\<close> and not the default: \<^verbatim>\<open>dict.get\<close> yields
  \<^verbatim>\<open>None\<close>, both conversions fail on it, and \<^verbatim>\<open>return temp\<close> hands it back; the last line
  of the function, which would substitute the default, is never reached.
\<close>

theorem safe_get_missing_key_returns_none:
  "map_of d k = None \<Longrightarrow> safe_get (PDict d) (Key (KStr k)) dflt = Inr PNone"
  by (simp add: safe_get_def coerce_def caught_def)

theorem safe_get_missing_key_returns_none_witness:
  "map_of [(''cuisine_type'', PStr ''Italian'')] ''food_name'' = None \<and>
   safe_get (PDict [(''cuisine_type'', PStr ''Italian'')]) (Key (KStr ''food_name'')) (PStr ''N/A'')
     = Inr PNone"
  using safe_get_missing_key_returns_none
          [of "[(''cuisine_type'', PStr ''Italian'')]" "''food_name''" "PStr ''N/A''"]
  by simp

section \<open>Properties of the normalisers\<close>













text \<open>
  Claim C6. A reply whose text is empty (a missing \<^verbatim>\<open>response\<close> field, or a text of
  whitespace only, which \<^verbatim>\<open>strip\<close> empties) gives the outcome \<open>EmptyResponse\<close> in both
  applications: an error triple, with no parsed record.
\<close>

theorem empty_response_reported:
  assumes "map_of d ''response'' = None \<or>
           (\<exists>raw. map_of d ''response'' = Some (PStr raw) \<and> py_strip raw = [])"
  shows "analyze_image_with_ollama2 (PDict d) = (None, Some EmptyResponse, Some []) \<and>
         analyze_image_with_ollama1 (PDict d) = (None, Some EmptyResponse, None)"
  using assms
  by (auto simp: analyze_image_with_ollama2_def analyze_image_with_ollama1_def response_text_def
       parse_reply2_def parse_reply1_def py_strip_def py_rstrip_def py_lstrip_def)

theorem empty_response_reported_witness:
  \<open>py_strip '' \<newline> '' = [] \<and>
   analyze_image_with_ollama2 (PDict [(''response'', PStr '' \<newline> '')])
     = (None, Some EmptyResponse, Some []) \<and>
   analyze_image_with_ollama1 (PDict [(''response'', PStr '' \<newline> '')])
     = (None, Some EmptyResponse, None)\<close>
  using empty_response_reported [of "[(''response'', PStr '' \<newline> '')]"]
  by (simp add: py_strip_def py_rstrip_def py_lstrip_def py_isspace_def)

text \<open>
  Claim C9. The two normalisers are not equivalent. On a valid JSON object wrapped in a
  markdown fence, app2.py removes the fence and returns the parsed record, while app.py
  gives the text to \<^verbatim>\<open>json.loads\<close> as it is and reports malformed JSON.
\<close>

theorem normalisers_differ_on_fenced_reply:
  \<open>analyze_image_with_ollama2 (PDict [(''response'', PStr
      ''```json\<newline>{"food_name":"Pizza","estimated_macronutrients_g":{"carbohydrates":80,"protein":20,"fat":30}}\<newline>```'')])
    = (Some (PDict [(''food_name'', PStr ''Pizza''),
                    (''estimated_macronutrients_g'',
                     PDict [(''carbohydrates'', PInt 80), (''protein'', PInt 20), (''fat'', PInt 30)])]),
       None,
       Some ''{"food_name":"Pizza","estimated_macronutrients_g":{"carbohydrates":80,"protein":20,"fat":30}}'')
   \<and>
   analyze_image_with_ollama1 (PDict [(''response'', PStr
      ''```json\<newline>{"food_name":"Pizza","estimated_macronutrients_g":{"carbohydrates":80,"protein":20,"fat":30}}\<newline>```'')])
    = (None, Some MalformedJson,
       Some ''```json\<newline>{"food_name":"Pizza","estimated_macronutrients_g":{"carbohydrates":80,"protein":20,"fat":30}}\<newline>```'')\<close>
  by code_simp

section \<open>Properties of the Nutrients tab\<close>







section \<open>Properties of the chart\<close>

lemma gt_zero_number: "gt_zero v \<Longrightarrow> isinstance_number v"
  by (induction v rule: gt_zero.induct) auto

lemma upt3: "[0..<3] = [0, 1, 2]"
  by (simp add: upt_rec)

lemma zero_not_positive: "zero_or_non_numeric v \<Longrightarrow> \<not> positive_number v"
  by (induction v rule: zero_or_non_numeric.induct) (auto simp: positive_number_def)

text \<open>The chart in one expression: the labelled macro values, filtered.\<close>

lemma chart_unfold:
  assumes "safe_get macros (Key (KStr ''carbohydrates'')) (PInt 0) = Inr c"
    and "safe_get macros (Key (KStr ''protein'')) (PInt 0) = Inr p"
    and "safe_get macros (Key (KStr ''fat'')) (PInt 0) = Inr f"
  shows "create_macro_pie_chart macros =
    (let sel = filter (\<lambda>(l, v). positive_number v)
                 [(''Carbohydrates'', c), (''Protein'', p), (''Fat'', f)]
     in if sel = [] then Inr None
        else Inr (Some \<lparr>pie_labels = map fst sel, pie_values = map snd sel,
                         pie_pull = map (\<lambda>v. 1 / 20) sel\<rparr>))"
  using assms
  by (auto simp: create_macro_pie_chart_def bind_exc_def Let_def positive_number_def upt3
           dest: gt_zero_number)

text \<open>
  Claim C5. Let \<open>c\<close>, \<open>p\<close> and \<open>f\<close> be the three macro values as the chart builder reads
  them (through the accessor, with default 0). When each of them is zero or not a number,
  the builder returns \<^verbatim>\<open>None\<close>; when at least one is a positive number, it returns a chart.
  A macros dictionary without the three keys is a case of the first kind.
\<close>

theorem no_chart_without_positive_macro:
  assumes "safe_get macros (Key (KStr ''carbohydrates'')) (PInt 0) = Inr c"
    and "safe_get macros (Key (KStr ''protein'')) (PInt 0) = Inr p"
    and "safe_get macros (Key (KStr ''fat'')) (PInt 0) = Inr f"
  shows "(zero_or_non_numeric c \<and> zero_or_non_numeric p \<and> zero_or_non_numeric f
            \<longrightarrow> create_macro_pie_chart macros = Inr None) \<and>
         (positive_number c \<or> positive_number p \<or> positive_number f
            \<longrightarrow> (\<exists>fig. create_macro_pie_chart macros = Inr (Some fig))) \<and>
         (map_of d ''carbohydrates'' = None \<and> map_of d ''protein'' = None \<and> map_of d ''fat'' = None
            \<longrightarrow> create_macro_pie_chart (PDict d) = Inr None)"
proof -
  have "map_of d ''carbohydrates'' = None \<and> map_of d ''protein'' = None \<and> map_of d ''fat'' = None
          \<longrightarrow> create_macro_pie_chart (PDict d) = Inr None"
    by (simp add: create_macro_pie_chart_def safe_get_def coerce_def caught_def bind_exc_def upt3)
  then show ?thesis
    unfolding chart_unfold [OF assms]
    by (auto simp: Let_def dest: zero_not_positive)
qed

theorem no_chart_without_positive_macro_witness:
  "zero_or_non_numeric (PInt 0) \<and> zero_or_non_numeric (PStr ''a lot'') \<and> zero_or_non_numeric PNone \<and>
   create_macro_pie_chart (PDict [(''carbohydrates'', PInt 0), (''protein'', PStr ''a lot'')])
     = Inr None \<and>
   positive_number (PInt 20) \<and>
   (\<exists>fig. create_macro_pie_chart (PDict [(''protein'', PInt 20)]) = Inr (Some fig)) \<and>
   create_macro_pie_chart (PDict []) = Inr None"
proof -
  let ?m = "PDict [(''carbohydrates'', PInt 0), (''protein'', PStr ''a lot'')]"
  let ?n = "PDict [(''protein'', PInt 20)]"
  have a: "safe_get ?m (Key (KStr ''carbohydrates'')) (PInt 0) = Inr (PInt 0)"
    and b: "safe_get ?m (Key (KStr ''protein'')) (PInt 0) = Inr (PStr ''a lot'')"
    and c: "safe_get ?m (Key (KStr ''fat'')) (PInt 0) = Inr PNone"
    and a': "safe_get ?n (Key (KStr ''carbohydrates'')) (PInt 0) = Inr PNone"
    and b': "safe_get ?n (Key (KStr ''protein'')) (PInt 0) = Inr (PInt 20)"
    and c': "safe_get ?n (Key (KStr ''fat'')) (PInt 0) = Inr PNone"
    by code_simp+
  have z: "zero_or_non_numeric (PInt 0) \<and> zero_or_non_numeric (PStr ''a lot'') \<and> zero_or_non_numeric PNone"
    and q: "positive_number (PInt 20)"
    by (simp_all add: positive_number_def)
  from no_chart_without_positive_macro [OF a b c, of "[]"]
       no_chart_without_positive_macro [OF a' b' c', of "[]"] z q
  show ?thesis by simp
qed

text \<open>
  Claim C10. With \<open>c\<close>, \<open>p\<close> and \<open>f\<close> as above, the chart holds exactly the macros whose
  value is a positive number, each label beside its own value: a macro that is zero or
  not a number has neither a label nor a value in the chart.
\<close>

theorem chart_holds_positive_macros:
  assumes "safe_get macros (Key (KStr ''carbohydrates'')) (PInt 0) = Inr c"
    and "safe_get macros (Key (KStr ''protein'')) (PInt 0) = Inr p"
    and "safe_get macros (Key (KStr ''fat'')) (PInt 0) = Inr f"
    and "create_macro_pie_chart macros = Inr (Some fig)"
  shows "zip (pie_labels fig) (pie_values fig)
           = filter (\<lambda>(l, v). positive_number v)
               [(''Carbohydrates'', c), (''Protein'', p), (''Fat'', f)] \<and>
         length (pie_labels fig) = length (pie_values fig)"
  using assms(4) unfolding chart_unfold [OF assms(1-3)]
  by (auto simp: Let_def zip_map_fst_snd split: if_splits)

theorem chart_holds_positive_macros_witness:
  "create_macro_pie_chart (PDict [(''carbohydrates'', PInt 80), (''protein'', PInt 0), (''fat'', PStr ''30'')])
     = Inr (Some \<lparr>pie_labels = [''Carbohydrates'', ''Fat''], pie_values = [PInt 80, PInt 30],
                   pie_pull = [1 / 20, 1 / 20]\<rparr>) \<and>
   zip [''Carbohydrates'', ''Fat''] [PInt 80, PInt 30]
     = filter (\<lambda>(l, v). positive_number v)
         [(''Carbohydrates'', PInt 80), (''Protein'', PInt 0), (''Fat'', PInt 30)]"
proof -
  let ?m = "PDict [(''carbohydrates'', PInt 80), (''protein'', PInt 0), (''fat'', PStr ''30'')]"
  let ?fig = "\<lparr>pie_labels = [''Carbohydrates'', ''Fat''], pie_values = [PInt 80, PInt 30],
               pie_pull = [1 / 20, 1 / 20]\<rparr>"
  have a: "safe_get ?m (Key (KStr ''carbohydrates'')) (PInt 0) = Inr (PInt 80)"
    and b: "safe_get ?m (Key (KStr ''protein'')) (PInt 0) = Inr (PInt 0)"
    and c: "safe_get ?m (Key (KStr ''fat'')) (PInt 0) = Inr (PInt 30)"
    and e: "create_macro_pie_chart ?m = Inr (Some ?fig)"
    by code_simp+
  from chart_holds_positive_macros [OF a b c e] e
  show ?thesis by simp
qed

section \<open>Properties of the Details tab\<close>

lemma empty_string_no_number: "int_of_str [] = None" "float_of_str [] = None"
  by (simp_all add: int_of_str_def float_of_str_def conv_strip_def split_sign_def decimal_of_str_def)

lemma render_allergens_total: "\<exists>ws. render_allergens data = Inr ws"
proof -
  obtain a where "safe_get data (Key (KStr ''potential_allergens'')) (PList []) = Inr a"
    using safe_get_total by blast
  then show ?thesis by (simp add: render_allergens_def bind_exc_def)
qed

text \<open>
  Claim C7, as the code has it. A non-empty list is rendered as an item list with the
  disclaimer; a non-empty string that does not read as a number, such as "None obvious",
  is written as plain text; a missing, null or empty value is rendered as the message
  that no allergens were identified; the renderer never fails. A string that reads as a
  number is not rendered as text: the accessor turns it into a number first.
\<close>

theorem allergens_rendering:
  "(map_of d ''potential_allergens'' = Some (PList items) \<and> items \<noteq> [] \<longrightarrow>
      render_allergens (PDict d)
        = Inr [allergens_heading, MarkdownItems items, Warning allergen_disclaimer]) \<and>
   (map_of d ''potential_allergens'' = Some (PStr s) \<and> s \<noteq> [] \<and>
    int_of_str s = None \<and> float_of_str s = None \<longrightarrow>
      render_allergens (PDict d) = Inr [allergens_heading, Write s]) \<and>
   (map_of d ''potential_allergens'' \<in> {None, Some PNone, Some (PList []), Some (PStr [])} \<longrightarrow>
      render_allergens (PDict d) = Inr [allergens_heading, Write no_allergens_message]) \<and>
   (\<exists>ws. render_allergens data = Inr ws)"
  using render_allergens_total [of data] empty_string_no_number
  by (auto simp: render_allergens_def bind_exc_def safe_get_def coerce_def caught_def)

theorem allergens_rendering_witness:
  "render_allergens (PDict [(''potential_allergens'', PList [PStr ''Gluten'', PStr ''Dairy''])])
     = Inr [allergens_heading, MarkdownItems [PStr ''Gluten'', PStr ''Dairy''],
            Warning allergen_disclaimer] \<and>
   int_of_str ''None obvious'' = None \<and> float_of_str ''None obvious'' = None \<and>
   render_allergens (PDict [(''potential_allergens'', PStr ''None obvious'')])
     = Inr [allergens_heading, Write ''None obvious''] \<and>
   render_allergens (PDict [(''food_name'', PStr ''Pizza'')])
     = Inr [allergens_heading, Write no_allergens_message]"
proof -
  have n: "int_of_str ''None obvious'' = None \<and> float_of_str ''None obvious'' = None"
    by code_simp
  from n
    allergens_rendering [of "[(''potential_allergens'', PList [PStr ''Gluten'', PStr ''Dairy''])]"
                            "[PStr ''Gluten'', PStr ''Dairy'']"]
    allergens_rendering [of "[(''potential_allergens'', PStr ''None obvious'')]" _ "''None obvious''"]
    allergens_rendering [of "[(''food_name'', PStr ''Pizza'')]"]
  show ?thesis by simp
qed

text \<open>
  The claim as stated fails: the string \<^verbatim>\<open>"123"\<close> in the allergens field is not written as
  plain text; the tab shows the message that no allergens were identified.
\<close>

theorem numeric_allergen_string_not_rendered:
  "render_allergens (PDict [(''potential_allergens'', PStr ''123'')])
     = Inr [Markdown ''**Potential Allergens (Visual/Typical Estimate):**'',
            Write ''No obvious potential allergens identified visually or data unavailable.'']"
  by code_simp

section \<open>Properties of the upload cache\<close>

lemma digit_char: "k < 10 \<Longrightarrow> is_digit (char_of (48 + k)) \<and> digit_val (char_of (48 + k)) = k"
  by (simp add: is_digit_def digit_val_def)

lemma str_nat_digits: "c \<in> set (str_nat n) \<Longrightarrow> is_digit c"
proof (induction n arbitrary: c rule: str_nat.induct)
  case (1 n)
  show ?case
  proof (cases "n < 10")
    case True
    then have "str_nat n = [char_of (48 + n)]" by (simp add: str_nat.simps)
    with 1(2) True show ?thesis by (simp add: digit_char)
  next
    case False
    then have "str_nat n = str_nat (n div 10) @ [char_of (48 + n mod 10)]"
      by (subst str_nat.simps) simp
    with 1(2) have "c \<in> set (str_nat (n div 10)) \<or> c = char_of (48 + n mod 10)"
      by auto
    moreover have "is_digit (char_of (48 + n mod 10))" by (simp add: digit_char)
    ultimately show ?thesis using 1(1) [OF False] by blast
  qed
qed

lemma digits_nat_snoc: "digits_nat (ds @ [c]) = digits_nat ds * 10 + digit_val c"
  by (simp add: digits_nat_def)

lemma digits_nat_str_nat: "digits_nat (str_nat n) = n"
proof (induction n rule: str_nat.induct)
  case (1 n)
  show ?case
  proof (cases "n < 10")
    case True
    then have "str_nat n = [char_of (48 + n)]" by (simp add: str_nat.simps)
    with True show ?thesis by (simp add: digits_nat_def digit_char)
  next
    case False
    then have "str_nat n = str_nat (n div 10) @ [char_of (48 + n mod 10)]"
      by (subst str_nat.simps) simp
    moreover have "digit_val (char_of (48 + n mod 10)) = n mod 10" by (simp add: digit_char)
    ultimately show ?thesis using 1 [OF False] by (simp add: digits_nat_snoc)
  qed
qed

lemma str_nat_inj: "str_nat n = str_nat m \<Longrightarrow> n = m"
proof -
  assume "str_nat n = str_nat m"
  then have "digits_nat (str_nat n) = digits_nat (str_nat m)" by simp
  then show ?thesis by (simp only: digits_nat_str_nat)
qed

lemma dash_not_digit: "CHR ''-'' \<notin> set (str_nat n)"
proof
  assume "CHR ''-'' \<in> set (str_nat n)"
  then have "is_digit (CHR ''-'')" by (rule str_nat_digits)
  then show False by (simp add: is_digit_def)
qed

lemma first_split_unique:
  "c \<notin> set xs \<Longrightarrow> c \<notin> set ys \<Longrightarrow> xs @ c # r = ys @ c # r' \<Longrightarrow> xs = ys \<and> r = r'"
proof (induction xs arbitrary: ys)
  case Nil
  then show ?case by (cases ys) auto
next
  case (Cons x xs)
  then show ?case by (cases ys) auto
qed

lemma current_file_id_inj:
  "current_file_id f = current_file_id g \<longleftrightarrow>
     upload_name f = upload_name g \<and> upload_size f = upload_size g"
proof
  assume e: "current_file_id f = current_file_id g"
  have r: "rev (current_file_id h) = rev (str_nat (upload_size h)) @ CHR ''-'' # rev (upload_name h)"
    for h by (simp add: current_file_id_def)
  from e have "rev (current_file_id f) = rev (current_file_id g)" by simp
  then have eq: "rev (str_nat (upload_size f)) @ CHR ''-'' # rev (upload_name f)
           = rev (str_nat (upload_size g)) @ CHR ''-'' # rev (upload_name g)"
    by (simp only: r)
  have nf: "CHR ''-'' \<notin> set (rev (str_nat (upload_size f)))"
    by (simp add: dash_not_digit)
  have ng: "CHR ''-'' \<notin> set (rev (str_nat (upload_size g)))"
    by (simp add: dash_not_digit)
  from eq have "rev (str_nat (upload_size f)) = rev (str_nat (upload_size g)) \<and>
             rev (upload_name f) = rev (upload_name g)"
    by (rule first_split_unique [OF nf ng])
  then show "upload_name f = upload_name g \<and> upload_size f = upload_size g"
    by (auto dest: str_nat_inj)
next
  assume "upload_name f = upload_name g \<and> upload_size f = upload_size g"
  then show "current_file_id f = current_file_id g" by (simp add: current_file_id_def)
qed



lemma upload_new:
  assumes "Some (current_file_id f) \<noteq> uploaded_file_id st"
  shows "snd (upload_step st (Some f)) \<and>
    script_run analyze st (Some f) =
        \<lparr>analysis_result = fst (fresh_outcome analyze f),
         error_message = fst (snd (fresh_outcome analyze f)),
         raw_output = snd (snd (fresh_outcome analyze f)),
         uploaded_file_id = Some (current_file_id f),
         image_bytes = Some (upload_value f)\<rparr>"
proof -
  have u: "upload_step st (Some f) =
      (st\<lparr>uploaded_file_id := Some (current_file_id f),
          image_bytes := Some (upload_value f),
          analysis_result := None,
          error_message := None,
          raw_output := None\<rparr>, True)"
    using assms by (simp add: upload_step_def)
  show ?thesis
    unfolding script_run_def u
    by (cases "analyze (upload_value f)") (simp add: analysis_step_def fresh_outcome_def)
qed

lemma upload_same:
  assumes "Some (current_file_id f) = uploaded_file_id st"
  shows "\<not> snd (upload_step st (Some f)) \<and> script_run analyze st (Some f) = st"
proof -
  have "upload_step st (Some f) = (st, False)"
    using assms by (simp add: upload_step_def)
  then show ?thesis by (simp add: script_run_def analysis_step_def)
qed

lemma upload_none: "script_run analyze st None = st"
  by (simp add: script_run_def upload_step_def analysis_step_def)

text \<open>
  Claim C8. The identity of an upload is its file name and its size: two uploads have the
  same identifier exactly when they agree on both. An upload whose identifier differs from
  the cached one sets \<^verbatim>\<open>run_analysis\<close> and replaces every field of the state by values that
  depend on the upload alone; an upload with the cached identifier, or no upload, leaves
  the state as it is and does not run the analysis.
\<close>

theorem upload_cache_keyed_by_name_and_size:
  "(current_file_id f = current_file_id g \<longleftrightarrow>
      upload_name f = upload_name g \<and> upload_size f = upload_size g) \<and>
   (Some (current_file_id f) \<noteq> uploaded_file_id st \<longrightarrow>
      snd (upload_step st (Some f)) \<and>
      script_run analyze st (Some f) =
        \<lparr>analysis_result = fst (fresh_outcome analyze f),
         error_message = fst (snd (fresh_outcome analyze f)),
         raw_output = snd (snd (fresh_outcome analyze f)),
         uploaded_file_id = Some (current_file_id f),
         image_bytes = Some (upload_value f)\<rparr>) \<and>
   (Some (current_file_id f) = uploaded_file_id st \<longrightarrow>
      \<not> snd (upload_step st (Some f)) \<and> script_run analyze st (Some f) = st) \<and>
   script_run analyze st None = st"
proof (intro conjI impI)
  show "current_file_id f = current_file_id g \<longleftrightarrow>
      upload_name f = upload_name g \<and> upload_size f = upload_size g"
    by (rule current_file_id_inj)
next
  assume a: "Some (current_file_id f) \<noteq> uploaded_file_id st"
  show "snd (upload_step st (Some f))" using upload_new [OF a] by (rule conjunct1)
  show "script_run analyze st (Some f) =
        \<lparr>analysis_result = fst (fresh_outcome analyze f),
         error_message = fst (snd (fresh_outcome analyze f)),
         raw_output = snd (snd (fresh_outcome analyze f)),
         uploaded_file_id = Some (current_file_id f),
         image_bytes = Some (upload_value f)\<rparr>"
    using upload_new [OF a] by (rule conjunct2)
next
  assume a: "Some (current_file_id f) = uploaded_file_id st"
  show "\<not> snd (upload_step st (Some f))" using upload_same [OF a] by (rule conjunct1)
  show "script_run analyze st (Some f) = st" using upload_same [OF a] by (rule conjunct2)
next
  show "script_run analyze st None = st" by (rule upload_none)
qed

theorem upload_cache_keyed_by_name_and_size_witness:
  "current_file_id \<lparr>upload_name = ''pizza.jpg'', upload_size = 3, upload_value = ''abc''\<rparr>
     = ''pizza.jpg-3'' \<and>
   script_run (\<lambda>b. (Some (PDict []), None, Some ''{}''))
       \<lparr>analysis_result = None, error_message = Some MalformedJson, raw_output = Some ''oops'',
        uploaded_file_id = Some ''salad.png-12'', image_bytes = Some ''0123456789ab''\<rparr>
       (Some \<lparr>upload_name = ''pizza.jpg'', upload_size = 3, upload_value = ''abc''\<rparr>)
     = \<lparr>analysis_result = Some (PDict []), error_message = None, raw_output = Some ''{}'',
        uploaded_file_id = Some ''pizza.jpg-3'', image_bytes = Some ''abc''\<rparr> \<and>
   script_run (\<lambda>b. (None, Some EmptyResponse, None))
       \<lparr>analysis_result = Some (PDict []), error_message = None, raw_output = Some ''{}'',
        uploaded_file_id = Some ''pizza.jpg-3'', image_bytes = Some ''abc''\<rparr>
       (Some \<lparr>upload_name = ''pizza.jpg'', upload_size = 3, upload_value = ''abc''\<rparr>)
     = \<lparr>analysis_result = Some (PDict []), error_message = None, raw_output = Some ''{}'',
        uploaded_file_id = Some ''pizza.jpg-3'', image_bytes = Some ''abc''\<rparr>"
proof -
  let ?f = "\<lparr>upload_name = ''pizza.jpg'', upload_size = 3, upload_value = ''abc''\<rparr>"
  let ?old = "\<lparr>analysis_result = None, error_message = Some MalformedJson, raw_output = Some ''oops'',
        uploaded_file_id = Some ''salad.png-12'', image_bytes = Some ''0123456789ab''\<rparr>"
  let ?new = "\<lparr>analysis_result = Some (PDict []), error_message = None, raw_output = Some ''{}'',
        uploaded_file_id = Some ''pizza.jpg-3'', image_bytes = Some ''abc''\<rparr>"
  have i: "current_file_id ?f = ''pizza.jpg-3''" by code_simp
  from i
    upload_cache_keyed_by_name_and_size
      [of ?f ?f ?old "\<lambda>b. (Some (PDict []), None, Some ''{}'')"]
    upload_cache_keyed_by_name_and_size
      [of ?f ?f ?new "\<lambda>b. (None, Some EmptyResponse, None)"]
  show ?thesis by (simp add: fresh_outcome_def)
qed

end
